theory Spec2Isabelle
  imports Main
begin

section \<open>JSON values as the handler sees them\<close>

text \<open>
  The webhook body is whatever \<^verbatim>\<open>Express.json()\<close> parsed: an untyped JSON object, written
  here as the list of its bindings (a body that is a JSON array has none of the fields the
  handler reads, like the empty list). Every field the handler reads may be absent
  (\<open>JUndefined\<close>) or of any JSON type. Numbers are modelled as integers: the handler only
  ever tests a number for truthiness (non-zero) and only stringifies a falsy one, which is
  zero.
\<close>

datatype jsval =
    JUndefined
  | JNull
  | JBool bool
  | JNum int
  | JStr string
  | JArr "jsval list"
  | JObj "(string \<times> jsval) list"

datatype js_error = TypeError string | Error string

text \<open>ToBoolean, as used by \<^verbatim>\<open>&&\<close> and \<^verbatim>\<open>if\<close>.\<close>

fun truthy :: "jsval \<Rightarrow> bool" where
  "truthy JUndefined = False"
| "truthy JNull = False"
| "truthy (JBool b) = b"
| "truthy (JNum n) = (n \<noteq> 0)"
| "truthy (JStr s) = (s \<noteq> [])"
| "truthy (JArr xs) = True"
| "truthy (JObj kvs) = True"

text \<open>
  Reading a property of an object that came out of JSON: the value bound to the key, or
  \<^verbatim>\<open>undefined\<close>. \<open>js_get\<close> is the read on the body object (the destructuring of line 80
  and \<^verbatim>\<open>req.body.text\<close>).
\<close>

definition js_get :: "(string \<times> jsval) list \<Rightarrow> string \<Rightarrow> jsval" where
  "js_get kvs k = (case map_of kvs k of None \<Rightarrow> JUndefined | Some v \<Rightarrow> v)"

text \<open>
  \<^verbatim>\<open>v.k\<close> on an arbitrary value, for a key \<open>k\<close> that names no built-in property (\<^verbatim>\<open>id\<close> and
  \<^verbatim>\<open>title\<close> are none): on \<^verbatim>\<open>undefined\<close> and \<^verbatim>\<open>null\<close> the read throws, on an object it
  is the bound value, on every other value it is \<^verbatim>\<open>undefined\<close>.
\<close>

fun js_member :: "jsval \<Rightarrow> string \<Rightarrow> js_error + jsval" where
  "js_member JUndefined k = Inl (TypeError (''Cannot read properties of undefined (reading '' @ k @ '')''))"
| "js_member JNull k = Inl (TypeError (''Cannot read properties of null (reading '' @ k @ '')''))"
| "js_member (JObj kvs) k = Inr (js_get kvs k)"
| "js_member v k = Inr JUndefined"

subsection \<open>Strings\<close>

text \<open>
  \<^verbatim>\<open>String.prototype.toLowerCase\<close> on the characters of a \<open>string\<close>: the letters A to Z
  (codes 65 to 90) become a to z (32 higher), every other character stays. No character
  outside A to Z lower-cases to a letter of the phrase the handler compares with, so this
  is all the comparison of line 105 sees.
\<close>

definition is_upper :: "char \<Rightarrow> bool" where
  "is_upper c = (65 \<le> (of_char c :: nat) \<and> (of_char c :: nat) \<le> 90)"

definition is_lower :: "char \<Rightarrow> bool" where
  "is_lower c = (97 \<le> (of_char c :: nat) \<and> (of_char c :: nat) \<le> 122)"

definition lower_char :: "char \<Rightarrow> char" where
  "lower_char c = (if is_upper c then char_of ((of_char c :: nat) + 32) else c)"

definition toLowerCase :: "string \<Rightarrow> string" where
  "toLowerCase s = map lower_char s"

text \<open>
  The method call \<^verbatim>\<open>v.toLowerCase()\<close> on an arbitrary truthy value: only a string has the
  method; on anything else the call throws a TypeError.
\<close>

fun call_toLowerCase :: "jsval \<Rightarrow> js_error + string" where
  "call_toLowerCase (JStr s) = Inr (toLowerCase s)"
| "call_toLowerCase v = Inl (TypeError ''req.body.text.toLowerCase is not a function'')"

text \<open>Decimal digits of a number, for ToString.\<close>

fun string_of_nat :: "nat \<Rightarrow> string" where
  "string_of_nat n =
     (if n < 10 then [char_of (48 + n)]
      else string_of_nat (n div 10) @ [char_of (48 + n mod 10)])"

definition string_of_int :: "int \<Rightarrow> string" where
  "string_of_int i = (if i < 0 then CHR ''-'' # string_of_nat (nat (- i)) else string_of_nat (nat i))"

fun join_comma :: "string list \<Rightarrow> string" where
  "join_comma [] = []"
| "join_comma [s] = s"
| "join_comma (s # ss) = s @ '','' @ join_comma ss"

text \<open>ToString, as applied by \<^verbatim>\<open>+\<close> to the operand of a string concatenation.\<close>

fun js_to_string :: "jsval \<Rightarrow> string" where
  "js_to_string JUndefined = ''undefined''"
| "js_to_string JNull = ''null''"
| "js_to_string (JBool b) = (if b then ''true'' else ''false'')"
| "js_to_string (JNum n) = string_of_int n"
| "js_to_string (JStr s) = s"
| "js_to_string (JArr xs) =
     join_comma (map (\<lambda>x. if x = JUndefined \<or> x = JNull then [] else js_to_string x) xs)"
| "js_to_string (JObj kvs) = ''[object Object]''"

section \<open>Collaborators and effects\<close>

text \<open>
  The two message classes of \<^verbatim>\<open>@vonage/messages\<close> the server constructs. \<^verbatim>\<open>to\<close> is whatever
  the caller passes (for a reply, the body's \<^verbatim>\<open>from\<close> field, of any JSON type); \<^verbatim>\<open>from\<close>
  is the environment's sender id.
\<close>

datatype message =
    RCSText (msg_to: jsval) (msg_from: string) (msg_text: string)
  | RCSCustom (msg_to: jsval) (msg_from: string) (msg_custom: jsval)

text \<open>
  What \<^verbatim>\<open>await vonage.messages.send(message)\<close> does: it resolves, or it rejects with an
  error that has no \<^verbatim>\<open>response\<close>, or one whose \<^verbatim>\<open>response.text()\<close> resolves to a string, or
  one whose \<^verbatim>\<open>response.text()\<close> rejects.
\<close>

datatype err_response = NoResponse | ResponseText string | ResponseTextRejects

datatype send_outcome = Resolved | Rejected err_response

text \<open>
  The generation backend, step by step as the handler uses it:
  \<^verbatim>\<open>generateContent(prompt)\<close> resolves to a result or rejects, \<^verbatim>\<open>await result.response\<close>
  yields a response or throws, \<^verbatim>\<open>response.text()\<close> returns the story or throws.
\<close>

datatype gen_response = GenResponse (text_of: "js_error + string")

datatype gen_result = GenResult (response_of: "js_error + gen_response")

record env =
  RCS_SENDER_ID :: string
  PHONE_NUMBER :: string
  generateContent :: "string \<Rightarrow> js_error + gen_result"
  messages_send :: "message \<Rightarrow> send_outcome"

text \<open>
  Everything the server does to the outside: the prompts handed to the backend, the
  messages handed to the transport, and the lines written with \<^verbatim>\<open>console.error\<close> (each
  line as its list of arguments), all in order.
\<close>

record world =
  prompts :: "string list"
  outbox :: "message list"
  console :: "string list list"

record http_response =
  status :: nat
  json :: jsval

section \<open>The send helpers (server.js, lines 152 to 216)\<close>

text \<open>
  The \<^verbatim>\<open>new RCSCustom({...})\<close> expression of \<^verbatim>\<open>sendInitialStoryPrompt\<close>, lines 153 to 183.
  \<open>CHR 0x22\<close> is the double quote inside the description.
\<close>

definition story_prompt_message :: "env \<Rightarrow> string \<Rightarrow> message" where
  "story_prompt_message e number =
     RCSCustom (JStr number) (RCS_SENDER_ID e)
       (JObj [(''contentMessage'',
         JObj [(''richCard'',
           JObj [(''standaloneCard'',
             JObj [(''cardOrientation'', JStr ''VERTICAL''),
                   (''cardContent'',
                     JObj [(''title'', JStr ''Bedtime Story Generator''),
                           (''description'', JStr (''Tap '' @ [CHR 0x22] @ ''Generate Story'' @ [CHR 0x22] @ '' for a magical tale!'')),
                           (''media'',
                             JObj [(''height'', JStr ''MEDIUM''),
                                   (''contentInfo'',
                                     JObj [(''fileUrl'',
                                       JStr ''https://cdn-icons-png.flaticon.com/512/2917/2917637.png'')])]),
                           (''suggestions'',
                             JArr [JObj [(''reply'',
                               JObj [(''text'', JStr ''Generate Story''),
                                     (''postbackData'', JStr ''GENERATE_STORY_REQUEST'')])]])])])])])])"

text \<open>
  The \<^verbatim>\<open>try\<close>/\<^verbatim>\<open>catch\<close> around the send, shared in shape by both helpers: the message goes
  to the transport; a rejection is logged and goes no further. The helpers return a
  result of type \<open>js_error + unit\<close> so that the handler's own \<^verbatim>\<open>try\<close> can be written as in
  the source: that the result is never an error is a lemma, not a choice of type.
\<close>

definition sendInitialStoryPrompt :: "env \<Rightarrow> string \<Rightarrow> world \<Rightarrow> (js_error + unit) \<times> world" where
  "sendInitialStoryPrompt e number w =
     (let message = story_prompt_message e number;
          w1 = w\<lparr>outbox := outbox w @ [message]\<rparr>
      in case messages_send e message of
           Resolved \<Rightarrow> (Inr (), w1)
         | Rejected r \<Rightarrow>
             (case r of
                ResponseText t \<Rightarrow> (Inr (), w1\<lparr>console := console w1 @ [[''Vonage API Error:'', t]]\<rparr>)
              | ResponseTextRejects \<Rightarrow> (Inr (), w1)
              | NoResponse \<Rightarrow>
                  (Inr (), w1\<lparr>console := console w1 @ [[''Error sending initial prompt message'']]\<rparr>)))"

definition sendGeneratedStory :: "env \<Rightarrow> jsval \<Rightarrow> string \<Rightarrow> world \<Rightarrow> (js_error + unit) \<times> world" where
  "sendGeneratedStory e to story w =
     (let message = RCSText to (RCS_SENDER_ID e) story;
          w1 = w\<lparr>outbox := outbox w @ [message]\<rparr>
      in case messages_send e message of
           Resolved \<Rightarrow> (Inr (), w1)
         | Rejected r \<Rightarrow>
             (case r of
                ResponseText t \<Rightarrow>
                  (Inr (), w1\<lparr>console := console w1 @ [[''Vonage API Error Response Text for story:'', t]]\<rparr>)
              | ResponseTextRejects \<Rightarrow> (Inr (), w1)
              | NoResponse \<Rightarrow>
                  (Inr (), w1\<lparr>console := console w1 @ [[''Error sending generated story message'']]\<rparr>)))"

section \<open>The routes (server.js, lines 60 to 145)\<close>

definition ok_response :: http_response where
  "ok_response = \<lparr>status = 200, json = JObj [(''ok'', JBool True)]\<rparr>"

text \<open>The error middleware of lines 139 to 145, where \<^verbatim>\<open>catchAsync\<close> sends a rejection.\<close>

fun err_message :: "js_error \<Rightarrow> string" where
  "err_message (TypeError m) = m"
| "err_message (Error m) = m"

definition error_middleware :: "js_error \<Rightarrow> http_response" where
  "error_middleware err =
     \<lparr>status = 500,
      json = JObj [(''status'', JNum 500), (''title'', JStr ''Internal Server Error''),
                   (''detail'', JStr (err_message err))]\<rparr>"

definition catchAsync ::
  "(world \<Rightarrow> (js_error + http_response) \<times> world) \<Rightarrow> world \<Rightarrow> http_response \<times> world" where
  "catchAsync fn w =
     (case fn w of (Inr res, w') \<Rightarrow> (res, w') | (Inl err, w') \<Rightarrow> (error_middleware err, w'))"

text \<open>\<^verbatim>\<open>GET /send-story-request\<close>, lines 60 to 66.\<close>

definition send_story_request_handler :: "env \<Rightarrow> world \<Rightarrow> (js_error + http_response) \<times> world" where
  "send_story_request_handler e w =
     (case sendInitialStoryPrompt e (PHONE_NUMBER e) w of
        (Inl err, w') \<Rightarrow> (Inl err, w')
      | (Inr u, w') \<Rightarrow>
          (Inr \<lparr>status = 200, json = JObj [(''message'', JStr ''Bedtime story prompt sent!'')]\<rparr>, w'))"

text \<open>
  The \<^verbatim>\<open>try\<close>/\<^verbatim>\<open>catch\<close> of the structured-reply branch, lines 89 to 100. Whatever throws
  inside \<^verbatim>\<open>try\<close> (the backend call, reading the response, reading its text, or the send)
  lands in \<^verbatim>\<open>catch\<close>, which sends the fixed apology.
\<close>

definition reply_trigger_try :: "env \<Rightarrow> jsval \<Rightarrow> world \<Rightarrow> (js_error + unit) \<times> world" where
  "reply_trigger_try e replyToNumber w =
     (let prompt = ''Generate a short, calming bedtime story for children (approx. 100-150 words).'';
          w1 = w\<lparr>prompts := prompts w @ [prompt]\<rparr>;
          attempt =
            (case generateContent e prompt of
               Inl err \<Rightarrow> (Inl err, w1)
             | Inr result \<Rightarrow>
                 (case response_of result of
                    Inl err \<Rightarrow> (Inl err, w1)
                  | Inr response \<Rightarrow>
                      (case text_of response of
                         Inl err \<Rightarrow> (Inl err, w1)
                       | Inr story \<Rightarrow> sendGeneratedStory e replyToNumber story w1)))
      in case attempt of
           (Inr u, w2) \<Rightarrow> (Inr u, w2)
         | (Inl geminiError, w2) \<Rightarrow>
             sendGeneratedStory e replyToNumber
               ''Oops! I couldn't generate a story right now. Please try again later.'' w2)"

text \<open>The \<^verbatim>\<open>try\<close>/\<^verbatim>\<open>catch\<close> of the free-text branch, lines 106 to 117.\<close>

definition text_trigger_try :: "env \<Rightarrow> jsval \<Rightarrow> world \<Rightarrow> (js_error + unit) \<times> world" where
  "text_trigger_try e from w =
     (let prompt = ''Generate a short, calming bedtime story for children (approx. 100-150 words).'';
          w1 = w\<lparr>prompts := prompts w @ [prompt]\<rparr>;
          attempt =
            (case generateContent e prompt of
               Inl err \<Rightarrow> (Inl err, w1)
             | Inr result \<Rightarrow>
                 (case response_of result of
                    Inl err \<Rightarrow> (Inl err, w1)
                  | Inr response \<Rightarrow>
                      (case text_of response of
                         Inl err \<Rightarrow> (Inl err, w1)
                       | Inr story \<Rightarrow> sendGeneratedStory e from story w1)))
      in case attempt of
           (Inr u, w2) \<Rightarrow> (Inr u, w2)
         | (Inl geminiError, w2) \<Rightarrow>
             sendGeneratedStory e from
               ''Oops! I couldn't generate a story right now. Please try again later.'' w2)"

text \<open>
  The condition of line 105, \<^verbatim>\<open>req.body.text && req.body.text.toLowerCase() === "generate story"\<close>:
  a falsy text short-circuits to false; a truthy one has \<^verbatim>\<open>toLowerCase\<close> called on it,
  which throws unless it is a string.
\<close>

definition text_is_trigger :: "jsval \<Rightarrow> js_error + bool" where
  "text_is_trigger text =
     (if truthy text then
        (case call_toLowerCase text of
           Inl err \<Rightarrow> Inl err
         | Inr lowered \<Rightarrow> Inr (lowered = ''generate story''))
      else Inr False)"

text \<open>
  The handler of \<^verbatim>\<open>POST /webhooks/inbound\<close>, lines 79 to 129, entered after
  \<^verbatim>\<open>verifyWebhookSignature\<close> has called \<^verbatim>\<open>next()\<close>. An error thrown on the way leaves the
  handler before line 128 is reached.
\<close>

definition inbound_handler ::
  "env \<Rightarrow> (string \<times> jsval) list \<Rightarrow> world \<Rightarrow> (js_error + http_response) \<times> world" where
  "inbound_handler e body w =
     (let channel = js_get body ''channel'';
          message_type = js_get body ''message_type'';
          reply = js_get body ''reply'';
          from = js_get body ''from'';
          done =
            (if channel = JStr ''rcs'' \<and> message_type = JStr ''reply'' \<and> truthy reply then
               (case js_member reply ''id'' of
                  Inl err \<Rightarrow> (Inl err, w)
                | Inr receivedId \<Rightarrow>
                    (case js_member reply ''title'' of
                       Inl err \<Rightarrow> (Inl err, w)
                     | Inr receivedTitle \<Rightarrow>
                         if receivedId = JStr ''GENERATE_STORY_REQUEST''
                            \<or> receivedTitle = JStr ''Generate Story''
                         then (let replyToNumber = from in reply_trigger_try e replyToNumber w)
                         else (Inr (), w)))
             else if channel = JStr ''rcs'' \<and> message_type = JStr ''text'' then
               (case text_is_trigger (js_get body ''text'') of
                  Inl err \<Rightarrow> (Inl err, w)
                | Inr True \<Rightarrow> text_trigger_try e from w
                | Inr False \<Rightarrow>
                    sendGeneratedStory e from
                      (''I received your message: '' @ js_to_string (js_get body ''text'')
                         @ ''. Tap 'Generate Story' for a tale!'') w)
             else (Inr (), w))
      in case done of
           (Inl err, w') \<Rightarrow> (Inl err, w')
         | (Inr u, w') \<Rightarrow> (Inr ok_response, w'))"

definition inbound_route :: "env \<Rightarrow> (string \<times> jsval) list \<Rightarrow> world \<Rightarrow> http_response \<times> world" where
  "inbound_route e body = catchAsync (inbound_handler e body)"

definition send_story_request_route :: "env \<Rightarrow> world \<Rightarrow> http_response \<times> world" where
  "send_story_request_route e = catchAsync (send_story_request_handler e)"

section \<open>Reading the handler as classification and reply\<close>

text \<open>
  The branch of \<open>inbound_handler\<close> an event takes, named as the specification names it.
  The conditions are those of lines 82, 86, 104 and 105, in that order; the error case is
  the handler's own (a method call on a value that has no such method). The source has no
  such function: that the handler does what this reading says is lemma
  \<open>inbound_handler_classify\<close> below.
\<close>

datatype ReplyClassification =
    GenerateStoryTrigger jsval
  | PlainEcho jsval jsval
  | Ignored

definition classify :: "(string \<times> jsval) list \<Rightarrow> js_error + ReplyClassification" where
  "classify body =
     (let channel = js_get body ''channel'';
          message_type = js_get body ''message_type'';
          reply = js_get body ''reply'';
          from = js_get body ''from''
      in if channel = JStr ''rcs'' \<and> message_type = JStr ''reply'' \<and> truthy reply then
           (case js_member reply ''id'' of
              Inl err \<Rightarrow> Inl err
            | Inr receivedId \<Rightarrow>
                (case js_member reply ''title'' of
                   Inl err \<Rightarrow> Inl err
                 | Inr receivedTitle \<Rightarrow>
                     if receivedId = JStr ''GENERATE_STORY_REQUEST''
                        \<or> receivedTitle = JStr ''Generate Story''
                     then Inr (GenerateStoryTrigger from)
                     else Inr Ignored))
         else if channel = JStr ''rcs'' \<and> message_type = JStr ''text'' then
           (case text_is_trigger (js_get body ''text'') of
              Inl err \<Rightarrow> Inl err
            | Inr True \<Rightarrow> Inr (GenerateStoryTrigger from)
            | Inr False \<Rightarrow> Inr (PlainEcho from (js_get body ''text'')))
         else Inr Ignored)"

text \<open>
  Lines 91 to 93 (and again 108 to 110) as one value: the story the backend returns for
  a prompt, or the first error thrown on the way to it.
\<close>

definition generated_text :: "env \<Rightarrow> string \<Rightarrow> js_error + string" where
  "generated_text e prompt =
     (case generateContent e prompt of
        Inl err \<Rightarrow> Inl err
      | Inr result \<Rightarrow>
          (case response_of result of
             Inl err \<Rightarrow> Inl err
           | Inr response \<Rightarrow> text_of response))"

text \<open>What the console gains when a message is handed to the transport by \<open>sendGeneratedStory\<close>.\<close>

definition story_send_log :: "env \<Rightarrow> message \<Rightarrow> string list list" where
  "story_send_log e m =
     (case messages_send e m of
        Resolved \<Rightarrow> []
      | Rejected NoResponse \<Rightarrow> [[''Error sending generated story message'']]
      | Rejected (ResponseText t) \<Rightarrow> [[''Vonage API Error Response Text for story:'', t]]
      | Rejected ResponseTextRejects \<Rightarrow> [])"

text \<open>
  Equality of strings up to the case of their letters, said without \<open>toLowerCase\<close>: the
  strings have the same length, and at each position the two characters are the same, or
  one is a capital letter and the other the small letter 32 code points above it.
\<close>

definition same_letter :: "char \<Rightarrow> char \<Rightarrow> bool" where
  "same_letter a b =
     (a = b
      \<or> (is_upper a \<and> is_lower b \<and> (of_char a :: nat) + 32 = of_char b)
      \<or> (is_lower a \<and> is_upper b \<and> (of_char b :: nat) + 32 = of_char a))"

definition case_insensitive_equal :: "string \<Rightarrow> string \<Rightarrow> bool" where
  "case_insensitive_equal s t = list_all2 same_letter s t"

fun is_string :: "jsval \<Rightarrow> bool" where
  "is_string (JStr s) = True"
| "is_string v = False"

text \<open>Reading a value along a path of keys, and the parts of a rich card a device shows.\<close>

fun js_path :: "jsval \<Rightarrow> string list \<Rightarrow> js_error + jsval" where
  "js_path v [] = Inr v"
| "js_path v (k # ks) = (case js_member v k of Inl err \<Rightarrow> Inl err | Inr v' \<Rightarrow> js_path v' ks)"

definition card_content :: "message \<Rightarrow> string \<Rightarrow> js_error + jsval" where
  "card_content m k =
     js_path (msg_custom m) [''contentMessage'', ''richCard'', ''standaloneCard'', ''cardContent'', k]"

definition card_suggestions :: "message \<Rightarrow> jsval list" where
  "card_suggestions m = (case card_content m ''suggestions'' of Inr (JArr xs) \<Rightarrow> xs | _ \<Rightarrow> [])"

definition suggestion_label :: "jsval \<Rightarrow> js_error + jsval" where
  "suggestion_label s = js_path s [''reply'', ''text'']"

definition suggestion_payload :: "jsval \<Rightarrow> js_error + jsval" where
  "suggestion_payload s = js_path s [''reply'', ''postbackData'']"

text \<open>Concrete collaborators and events for evaluating the handler.\<close>

definition story_backend :: "string \<Rightarrow> js_error + gen_result" where
  "story_backend prompt = Inr (GenResult (Inr (GenResponse (Inr ''Once upon a time, a sleepy owl.''))))"

definition failing_backend :: "string \<Rightarrow> js_error + gen_result" where
  "failing_backend prompt = Inl (Error ''fetch failed'')"

definition accepting_transport :: "message \<Rightarrow> send_outcome" where
  "accepting_transport m = Resolved"

definition rejecting_transport :: "message \<Rightarrow> send_outcome" where
  "rejecting_transport m = Rejected NoResponse"

definition unreadable_transport :: "message \<Rightarrow> send_outcome" where
  "unreadable_transport m = Rejected ResponseTextRejects"

definition good_env :: env where
  "good_env = \<lparr>RCS_SENDER_ID = ''StoryAgent'', PHONE_NUMBER = ''+1555'',
                generateContent = story_backend, messages_send = accepting_transport\<rparr>"

definition bad_env :: env where
  "bad_env = \<lparr>RCS_SENDER_ID = ''StoryAgent'', PHONE_NUMBER = ''+1555'',
               generateContent = failing_backend, messages_send = rejecting_transport\<rparr>"

definition silent_env :: env where
  "silent_env = \<lparr>RCS_SENDER_ID = ''StoryAgent'', PHONE_NUMBER = ''+1555'',
                  generateContent = story_backend, messages_send = unreadable_transport\<rparr>"

definition idle :: world where
  "idle = \<lparr>prompts = [], outbox = [], console = []\<rparr>"

section \<open>Properties of the helpers and of the reading\<close>

lemma same_letter_lower_char:
  assumes "\<not> is_upper b"
  shows "same_letter a b \<longleftrightarrow> lower_char a = b"
proof
  assume "same_letter a b"
  then consider "a = b" | "is_upper a" "(of_char a :: nat) + 32 = of_char b"
    using assms by (auto simp add: same_letter_def)
  then show "lower_char a = b"
  proof cases
    case 1
    then show ?thesis using assms by (simp add: lower_char_def)
  next
    case 2
    then show ?thesis by (simp add: lower_char_def)
  qed
next
  assume l: "lower_char a = b"
  show "same_letter a b"
  proof (cases "is_upper a")
    case True
    then have "b = char_of ((of_char a :: nat) + 32)"
      using l by (simp add: lower_char_def)
    then have "(of_char b :: nat) = of_char a + 32"
      using True by (simp add: is_upper_def)
    then show ?thesis using True by (simp add: same_letter_def is_upper_def is_lower_def)
  next
    case False
    then show ?thesis using l by (simp add: lower_char_def same_letter_def)
  qed
qed

lemma case_insensitive_equal_toLowerCase:
  "\<forall>b \<in> set p. \<not> is_upper b \<Longrightarrow> case_insensitive_equal t p \<longleftrightarrow> toLowerCase t = p"
proof (induction t arbitrary: p)
  case Nil
  then show ?case by (auto simp add: case_insensitive_equal_def toLowerCase_def)
next
  case (Cons a t)
  show ?case
  proof (cases p)
    case Nil
    then show ?thesis by (simp add: case_insensitive_equal_def toLowerCase_def)
  next
    case (Cons b q)
    then have "\<not> is_upper b" and "\<forall>c \<in> set q. \<not> is_upper c"
      using Cons.prems by simp_all
    then show ?thesis
      using Cons.IH [of q] Cons same_letter_lower_char [of b a]
      by (simp add: case_insensitive_equal_def toLowerCase_def)
  qed
qed

lemma phrase_has_no_capitals: "\<forall>b \<in> set ''generate story''. \<not> is_upper b"
  by (simp add: is_upper_def)

lemma case_insensitive_phrase:
  "case_insensitive_equal t ''generate story'' \<longleftrightarrow> toLowerCase t = ''generate story''"
  using case_insensitive_equal_toLowerCase [OF phrase_has_no_capitals] .


lemma sendGeneratedStory_eq:
  "sendGeneratedStory e to story w =
     (Inr (), w\<lparr>outbox := outbox w @ [RCSText to (RCS_SENDER_ID e) story],
                 console := console w @ story_send_log e (RCSText to (RCS_SENDER_ID e) story)\<rparr>)"
  by (simp add: sendGeneratedStory_def story_send_log_def Let_def
           split: send_outcome.splits err_response.splits)

lemma reply_trigger_try_eq:
  "reply_trigger_try e r w =
     sendGeneratedStory e r
       (case generated_text e ''Generate a short, calming bedtime story for children (approx. 100-150 words).'' of
          Inl err \<Rightarrow> ''Oops! I couldn't generate a story right now. Please try again later.''
        | Inr story \<Rightarrow> story)
       (w\<lparr>prompts := prompts w @ [''Generate a short, calming bedtime story for children (approx. 100-150 words).'']\<rparr>)"
  by (simp add: reply_trigger_try_def generated_text_def sendGeneratedStory_eq Let_def
           split: sum.splits)

lemma text_trigger_try_eq:
  "text_trigger_try e r w =
     sendGeneratedStory e r
       (case generated_text e ''Generate a short, calming bedtime story for children (approx. 100-150 words).'' of
          Inl err \<Rightarrow> ''Oops! I couldn't generate a story right now. Please try again later.''
        | Inr story \<Rightarrow> story)
       (w\<lparr>prompts := prompts w @ [''Generate a short, calming bedtime story for children (approx. 100-150 words).'']\<rparr>)"
  by (simp add: text_trigger_try_def generated_text_def sendGeneratedStory_eq Let_def
           split: sum.splits)

lemma inbound_handler_classify:
  "inbound_handler e body w =
     (case classify body of
        Inl err \<Rightarrow> (Inl err, w)
      | Inr (GenerateStoryTrigger r) \<Rightarrow> (Inr ok_response, snd (reply_trigger_try e r w))
      | Inr (PlainEcho r t) \<Rightarrow>
          (Inr ok_response,
           snd (sendGeneratedStory e r
                  (''I received your message: '' @ js_to_string t @ ''. Tap 'Generate Story' for a tale!'') w))
      | Inr Ignored \<Rightarrow> (Inr ok_response, w))"
  by (simp add: inbound_handler_def classify_def Let_def reply_trigger_try_eq text_trigger_try_eq
        sendGeneratedStory_eq split: sum.splits bool.splits)


lemma truthy_js_member: "truthy v \<Longrightarrow> \<exists>x. js_member v k = Inr x"
  by (cases v) simp_all

lemma trigger_world:
  "snd (reply_trigger_try e r w) =
     w\<lparr>prompts := prompts w @ [''Generate a short, calming bedtime story for children (approx. 100-150 words).''],
       outbox := outbox w @ [RCSText r (RCS_SENDER_ID e)
         (case generated_text e ''Generate a short, calming bedtime story for children (approx. 100-150 words).'' of Inl err \<Rightarrow> ''Oops! I couldn't generate a story right now. Please try again later.'' | Inr story \<Rightarrow> story)],
       console := console w @ story_send_log e (RCSText r (RCS_SENDER_ID e)
         (case generated_text e ''Generate a short, calming bedtime story for children (approx. 100-150 words).'' of Inl err \<Rightarrow> ''Oops! I couldn't generate a story right now. Please try again later.'' | Inr story \<Rightarrow> story))\<rparr>"
  by (simp add: reply_trigger_try_eq sendGeneratedStory_eq)

lemma inbound_route_classify:
  "inbound_route e body w =
     (case classify body of
        Inl err \<Rightarrow> (error_middleware err, w)
      | Inr (GenerateStoryTrigger r) \<Rightarrow> (ok_response, snd (reply_trigger_try e r w))
      | Inr (PlainEcho r t) \<Rightarrow>
          (ok_response,
           snd (sendGeneratedStory e r
                  (''I received your message: '' @ js_to_string t @ ''. Tap 'Generate Story' for a tale!'') w))
      | Inr Ignored \<Rightarrow> (ok_response, w))"
  by (simp add: inbound_route_def catchAsync_def inbound_handler_classify
           split: sum.splits ReplyClassification.splits)

lemma classify_reply:
  assumes "js_get body ''channel'' = JStr ''rcs''"
      and "js_get body ''message_type'' = JStr ''reply''"
      and "truthy (js_get body ''reply'')"
  shows "classify body =
           (if js_member (js_get body ''reply'') ''id'' = Inr (JStr ''GENERATE_STORY_REQUEST'')
               \<or> js_member (js_get body ''reply'') ''title'' = Inr (JStr ''Generate Story'')
            then Inr (GenerateStoryTrigger (js_get body ''from''))
            else Inr Ignored)"
proof -
  obtain i where i: "js_member (js_get body ''reply'') ''id'' = Inr i"
    using truthy_js_member [OF assms(3)] by blast
  obtain t where t: "js_member (js_get body ''reply'') ''title'' = Inr t"
    using truthy_js_member [OF assms(3)] by blast
  show ?thesis using assms i t by (simp add: classify_def)
qed

lemma classify_text:
  assumes "js_get body ''channel'' = JStr ''rcs''"
      and "js_get body ''message_type'' = JStr ''text''"
      and "js_get body ''text'' = JStr t"
  shows "classify body =
           (if toLowerCase t = ''generate story''
            then Inr (GenerateStoryTrigger (js_get body ''from''))
            else Inr (PlainEcho (js_get body ''from'') (JStr t)))"
proof (cases "t = []")
  case True
  then show ?thesis using assms by (simp add: classify_def text_is_trigger_def toLowerCase_def)
next
  case False
  then show ?thesis using assms by (simp add: classify_def text_is_trigger_def)
qed

lemma classify_trigger_recipient:
  assumes "classify body = Inr (GenerateStoryTrigger r)"
  shows "r = js_get body ''from''"
  using assms
  by (simp add: classify_def Let_def split: if_splits sum.splits bool.splits)

lemma classify_no_error:
  assumes "\<not> (js_get body ''channel'' = JStr ''rcs'' \<and> js_get body ''message_type'' = JStr ''text''
              \<and> truthy (js_get body ''text'') \<and> \<not> is_string (js_get body ''text''))"
  shows "\<exists>c. classify body = Inr c"
proof (cases "js_get body ''channel'' = JStr ''rcs'' \<and> js_get body ''message_type'' = JStr ''reply''
              \<and> truthy (js_get body ''reply'')")
  case True
  then show ?thesis using classify_reply [of body] by simp
next
  case False
  show ?thesis
  proof (cases "js_get body ''channel'' = JStr ''rcs'' \<and> js_get body ''message_type'' = JStr ''text''")
    case True
    with assms have "\<not> truthy (js_get body ''text'') \<or> is_string (js_get body ''text'')" by blast
    then show ?thesis
    proof
      assume "\<not> truthy (js_get body ''text'')"
      then show ?thesis using True False
        by (simp add: classify_def text_is_trigger_def)
    next
      assume "is_string (js_get body ''text'')"
      then obtain t where "js_get body ''text'' = JStr t"
        by (cases "js_get body ''text''") simp_all
      then show ?thesis using True classify_text [of body t] by simp
    qed
  next
    case F2: False
    then show ?thesis using False by (auto simp add: classify_def)
  qed
qed

lemma card_suggestions_prompt:
  "card_suggestions (story_prompt_message e number) =
     [JObj [(''reply'', JObj [(''text'', JStr ''Generate Story''),
                              (''postbackData'', JStr ''GENERATE_STORY_REQUEST'')])]]"
  by (simp add: card_suggestions_def card_content_def story_prompt_message_def js_get_def)

lemma sendInitialStoryPrompt_outbox:
  "fst (sendInitialStoryPrompt e number w) = Inr () \<and>
   outbox (snd (sendInitialStoryPrompt e number w)) = outbox w @ [story_prompt_message e number]"
  by (simp add: sendInitialStoryPrompt_def Let_def split: send_outcome.splits err_response.splits)

lemma good_env_simps:
  "RCS_SENDER_ID good_env = ''StoryAgent''"
  "PHONE_NUMBER good_env = ''+1555''"
  "generated_text good_env p = Inr ''Once upon a time, a sleepy owl.''"
  "story_send_log good_env m = []"
  by (simp_all add: good_env_def generated_text_def story_backend_def story_send_log_def
        accepting_transport_def)

lemma bad_env_simps:
  "RCS_SENDER_ID bad_env = ''StoryAgent''"
  "PHONE_NUMBER bad_env = ''+1555''"
  "generated_text bad_env p = Inl (Error ''fetch failed'')"
  "story_send_log bad_env m = [[''Error sending generated story message'']]"
  by (simp_all add: bad_env_def generated_text_def failing_backend_def story_send_log_def
        rejecting_transport_def)

lemma idle_simps: "prompts idle = []" "outbox idle = []" "console idle = []"
  by (simp_all add: idle_def)

lemma toLowerCase_shouted: "toLowerCase ''GENERATE STORY'' = ''generate story''"
  by code_simp

lemma toLowerCase_hello: "toLowerCase ''hello'' = ''hello''"
  by code_simp

section \<open>The claims\<close>

text \<open>
  Claim C1. An event on channel \<^verbatim>\<open>rcs\<close> with message type \<^verbatim>\<open>reply\<close> and a reply present: if
  the reply's id is \<^verbatim>\<open>GENERATE_STORY_REQUEST\<close> or its title is \<^verbatim>\<open>Generate Story\<close> (either
  one, whatever the other field holds), the event is a generate-story trigger for the sender
  in \<^verbatim>\<open>from\<close>, the backend is asked once, and exactly one text message goes to that sender
  (the story, or the apology when generation fails). For any other id and title the event
  is ignored: nothing is asked, nothing is sent, and the call is answered 200.
\<close>
theorem reply_trigger_generates_and_answers:
  assumes "js_get body ''channel'' = JStr ''rcs''"
      and "js_get body ''message_type'' = JStr ''reply''"
      and "truthy (js_get body ''reply'')"
  shows "(js_member (js_get body ''reply'') ''id'' = Inr (JStr ''GENERATE_STORY_REQUEST'')
            \<or> js_member (js_get body ''reply'') ''title'' = Inr (JStr ''Generate Story'') \<longrightarrow>
          classify body = Inr (GenerateStoryTrigger (js_get body ''from'')) \<and>
          fst (inbound_route e body w) = ok_response \<and>
          prompts (snd (inbound_route e body w)) = prompts w @ [''Generate a short, calming bedtime story for children (approx. 100-150 words).''] \<and>
          outbox (snd (inbound_route e body w)) =
            outbox w @ [RCSText (js_get body ''from'') (RCS_SENDER_ID e)
              (case generated_text e ''Generate a short, calming bedtime story for children (approx. 100-150 words).'' of Inl err \<Rightarrow> ''Oops! I couldn't generate a story right now. Please try again later.'' | Inr story \<Rightarrow> story)])
       \<and> (\<not> (js_member (js_get body ''reply'') ''id'' = Inr (JStr ''GENERATE_STORY_REQUEST'')
            \<or> js_member (js_get body ''reply'') ''title'' = Inr (JStr ''Generate Story'')) \<longrightarrow>
          classify body = Inr Ignored \<and> inbound_route e body w = (ok_response, w))"
  using classify_reply [OF assms]
  by (simp add: inbound_route_classify trigger_world)

theorem reply_trigger_generates_and_answers_witness:
  "classify
     [(''channel'', JStr ''rcs''), (''message_type'', JStr ''reply''),
      (''reply'', JObj [(''id'', JStr ''GENERATE_STORY_REQUEST''), (''title'', JStr ''X'')]),
      (''from'', JStr ''+1555'')]
     = Inr (GenerateStoryTrigger (JStr ''+1555''))
   \<and> prompts (snd (inbound_route good_env
     [(''channel'', JStr ''rcs''), (''message_type'', JStr ''reply''),
      (''reply'', JObj [(''id'', JStr ''GENERATE_STORY_REQUEST''), (''title'', JStr ''X'')]),
      (''from'', JStr ''+1555'')] idle))
     = [''Generate a short, calming bedtime story for children (approx. 100-150 words).'']
   \<and> outbox (snd (inbound_route good_env
     [(''channel'', JStr ''rcs''), (''message_type'', JStr ''reply''),
      (''reply'', JObj [(''id'', JStr ''GENERATE_STORY_REQUEST''), (''title'', JStr ''X'')]),
      (''from'', JStr ''+1555'')] idle))
     = [RCSText (JStr ''+1555'') ''StoryAgent'' ''Once upon a time, a sleepy owl.'']
   \<and> classify
     [(''channel'', JStr ''rcs''), (''message_type'', JStr ''reply''),
      (''reply'', JObj [(''id'', JStr ''OTHER''), (''title'', JStr ''Other'')]),
      (''from'', JStr ''+1555'')]
     = Inr Ignored
   \<and> inbound_route good_env
     [(''channel'', JStr ''rcs''), (''message_type'', JStr ''reply''),
      (''reply'', JObj [(''id'', JStr ''OTHER''), (''title'', JStr ''Other'')]),
      (''from'', JStr ''+1555'')] idle
     = (ok_response, idle)"
proof -
  let ?b = "[(''channel'', JStr ''rcs''), (''message_type'', JStr ''reply''),
      (''reply'', JObj [(''id'', JStr ''GENERATE_STORY_REQUEST''), (''title'', JStr ''X'')]),
      (''from'', JStr ''+1555'')]"
  let ?n = "[(''channel'', JStr ''rcs''), (''message_type'', JStr ''reply''),
      (''reply'', JObj [(''id'', JStr ''OTHER''), (''title'', JStr ''Other'')]),
      (''from'', JStr ''+1555'')]"
  have b: "js_get ?b ''channel'' = JStr ''rcs''" "js_get ?b ''message_type'' = JStr ''reply''"
      "truthy (js_get ?b ''reply'')"
    by (simp_all add: js_get_def)
  have bm: "js_member (js_get ?b ''reply'') ''id'' = Inr (JStr ''GENERATE_STORY_REQUEST'')"
      "js_get ?b ''from'' = JStr ''+1555''"
    by (simp_all add: js_get_def)
  have n: "js_get ?n ''channel'' = JStr ''rcs''" "js_get ?n ''message_type'' = JStr ''reply''"
      "truthy (js_get ?n ''reply'')"
    by (simp_all add: js_get_def)
  have nm: "js_member (js_get ?n ''reply'') ''id'' = Inr (JStr ''OTHER'')"
      "js_member (js_get ?n ''reply'') ''title'' = Inr (JStr ''Other'')"
    by (simp_all add: js_get_def)
  have hit: "classify ?b = Inr (GenerateStoryTrigger (JStr ''+1555''))
      \<and> prompts (snd (inbound_route good_env ?b idle)) = [''Generate a short, calming bedtime story for children (approx. 100-150 words).'']
      \<and> outbox (snd (inbound_route good_env ?b idle))
          = [RCSText (JStr ''+1555'') ''StoryAgent'' ''Once upon a time, a sleepy owl.'']"
    using reply_trigger_generates_and_answers [OF b, of good_env idle] bm
    by (simp add: good_env_simps idle_simps)
  have miss: "classify ?n = Inr Ignored \<and> inbound_route good_env ?n idle = (ok_response, idle)"
    using reply_trigger_generates_and_answers [OF n, of good_env idle] nm
    by simp
  show ?thesis using hit miss by simp
qed

text \<open>
  Claim C2. An event on channel \<^verbatim>\<open>rcs\<close> with message type \<^verbatim>\<open>text\<close> whose text equals
  \<^verbatim>\<open>generate story\<close> up to the case of its letters is a generate-story trigger for the
  sender in \<^verbatim>\<open>from\<close>; the backend is asked once and one text message goes to that sender.
\<close>
theorem text_trigger_any_casing:
  assumes "js_get body ''channel'' = JStr ''rcs''"
      and "js_get body ''message_type'' = JStr ''text''"
      and "js_get body ''text'' = JStr t"
      and "case_insensitive_equal t ''generate story''"
  shows "classify body = Inr (GenerateStoryTrigger (js_get body ''from'')) \<and>
         fst (inbound_route e body w) = ok_response \<and>
         prompts (snd (inbound_route e body w)) = prompts w @ [''Generate a short, calming bedtime story for children (approx. 100-150 words).''] \<and>
         outbox (snd (inbound_route e body w)) =
           outbox w @ [RCSText (js_get body ''from'') (RCS_SENDER_ID e)
             (case generated_text e ''Generate a short, calming bedtime story for children (approx. 100-150 words).'' of Inl err \<Rightarrow> ''Oops! I couldn't generate a story right now. Please try again later.'' | Inr story \<Rightarrow> story)]"
proof -
  have "toLowerCase t = ''generate story''"
    using assms(4) by (simp add: case_insensitive_phrase)
  then have "classify body = Inr (GenerateStoryTrigger (js_get body ''from''))"
    using classify_text [OF assms(1,2,3)] by simp
  then show ?thesis by (simp add: inbound_route_classify trigger_world)
qed

theorem text_trigger_any_casing_witness:
  "case_insensitive_equal ''GENERATE STORY'' ''generate story''
   \<and> classify
     [(''channel'', JStr ''rcs''), (''message_type'', JStr ''text''),
      (''text'', JStr ''GENERATE STORY''), (''from'', JStr ''+1555'')]
     = Inr (GenerateStoryTrigger (JStr ''+1555''))
   \<and> prompts (snd (inbound_route good_env
     [(''channel'', JStr ''rcs''), (''message_type'', JStr ''text''),
      (''text'', JStr ''GENERATE STORY''), (''from'', JStr ''+1555'')] idle))
     = [''Generate a short, calming bedtime story for children (approx. 100-150 words).'']
   \<and> outbox (snd (inbound_route good_env
     [(''channel'', JStr ''rcs''), (''message_type'', JStr ''text''),
      (''text'', JStr ''GENERATE STORY''), (''from'', JStr ''+1555'')] idle))
     = [RCSText (JStr ''+1555'') ''StoryAgent'' ''Once upon a time, a sleepy owl.'']"
proof -
  let ?b = "[(''channel'', JStr ''rcs''), (''message_type'', JStr ''text''),
      (''text'', JStr ''GENERATE STORY''), (''from'', JStr ''+1555'')]"
  have b: "js_get ?b ''channel'' = JStr ''rcs''" "js_get ?b ''message_type'' = JStr ''text''"
      "js_get ?b ''text'' = JStr ''GENERATE STORY''"
    by (simp_all add: js_get_def)
  have c: "case_insensitive_equal ''GENERATE STORY'' ''generate story''"
    by (simp add: case_insensitive_phrase toLowerCase_shouted)
  have f: "js_get ?b ''from'' = JStr ''+1555''"
    by (simp add: js_get_def)
  show ?thesis
    using text_trigger_any_casing [OF b c, of good_env idle] c f
    by (simp add: good_env_simps idle_simps)
qed

text \<open>
  Claim C3. An event on channel \<^verbatim>\<open>rcs\<close> with message type \<^verbatim>\<open>text\<close> whose text is not
  \<^verbatim>\<open>generate story\<close> up to case is a plain echo carrying the text as it came; the backend is
  not asked, and exactly one text message goes to the sender, reading
  \<^verbatim>\<open>I received your message: \<close> followed by the text and \<^verbatim>\<open>. Tap 'Generate Story' for a tale!\<close>.
\<close>
theorem other_text_is_echoed:
  assumes "js_get body ''channel'' = JStr ''rcs''"
      and "js_get body ''message_type'' = JStr ''text''"
      and "js_get body ''text'' = JStr t"
      and "\<not> case_insensitive_equal t ''generate story''"
  shows "classify body = Inr (PlainEcho (js_get body ''from'') (JStr t)) \<and>
         fst (inbound_route e body w) = ok_response \<and>
         prompts (snd (inbound_route e body w)) = prompts w \<and>
         outbox (snd (inbound_route e body w)) =
           outbox w @ [RCSText (js_get body ''from'') (RCS_SENDER_ID e)
             (''I received your message: '' @ t @ ''. Tap 'Generate Story' for a tale!'')]"
proof -
  have "toLowerCase t \<noteq> ''generate story''"
    using assms(4) by (simp add: case_insensitive_phrase)
  then have "classify body = Inr (PlainEcho (js_get body ''from'') (JStr t))"
    using classify_text [OF assms(1,2,3)] by simp
  then show ?thesis by (simp add: inbound_route_classify sendGeneratedStory_eq)
qed

theorem other_text_is_echoed_witness:
  "\<not> case_insensitive_equal ''hello'' ''generate story''
   \<and> classify
     [(''channel'', JStr ''rcs''), (''message_type'', JStr ''text''),
      (''text'', JStr ''hello''), (''from'', JStr ''+1555'')]
     = Inr (PlainEcho (JStr ''+1555'') (JStr ''hello''))
   \<and> outbox (snd (inbound_route good_env
     [(''channel'', JStr ''rcs''), (''message_type'', JStr ''text''),
      (''text'', JStr ''hello''), (''from'', JStr ''+1555'')] idle))
     = [RCSText (JStr ''+1555'') ''StoryAgent''
          ''I received your message: hello. Tap 'Generate Story' for a tale!'']"
proof -
  let ?b = "[(''channel'', JStr ''rcs''), (''message_type'', JStr ''text''),
      (''text'', JStr ''hello''), (''from'', JStr ''+1555'')]"
  have b: "js_get ?b ''channel'' = JStr ''rcs''" "js_get ?b ''message_type'' = JStr ''text''"
      "js_get ?b ''text'' = JStr ''hello''"
    by (simp_all add: js_get_def)
  have c: "\<not> case_insensitive_equal ''hello'' ''generate story''"
    by (simp add: case_insensitive_phrase toLowerCase_hello)
  have f: "js_get ?b ''from'' = JStr ''+1555''"
    by (simp add: js_get_def)
  show ?thesis
    using other_text_is_echoed [OF b c, of good_env idle] c f
    by (simp add: good_env_simps idle_simps)
qed

text \<open>
  Claim C4. On every trigger, a generation that fails at any step (the request, reading the
  response, reading its text) makes the message sent carry exactly the fixed apology, and the
  handler still returns normally: no error leaves it. A generation that succeeds makes the
  message carry the backend's text unchanged.
\<close>
theorem generation_failure_becomes_apology:
  assumes "classify body = Inr (GenerateStoryTrigger r)"
  shows "fst (inbound_handler e body w) = Inr ok_response \<and>
         (generated_text e ''Generate a short, calming bedtime story for children (approx. 100-150 words).'' = Inl err \<longrightarrow>
            outbox (snd (inbound_handler e body w)) =
              outbox w @ [RCSText r (RCS_SENDER_ID e) ''Oops! I couldn't generate a story right now. Please try again later.'']) \<and>
         (generated_text e ''Generate a short, calming bedtime story for children (approx. 100-150 words).'' = Inr story \<longrightarrow>
            outbox (snd (inbound_handler e body w)) =
              outbox w @ [RCSText r (RCS_SENDER_ID e) story])"
  using assms by (simp add: inbound_handler_classify trigger_world)

theorem generation_failure_becomes_apology_witness:
  "classify
     [(''channel'', JStr ''rcs''), (''message_type'', JStr ''reply''),
      (''reply'', JObj [(''id'', JStr ''GENERATE_STORY_REQUEST''), (''title'', JStr ''X'')]),
      (''from'', JStr ''+1555'')]
     = Inr (GenerateStoryTrigger (JStr ''+1555''))
   \<and> generated_text bad_env ''Generate a short, calming bedtime story for children (approx. 100-150 words).'' = Inl (Error ''fetch failed'')
   \<and> fst (inbound_handler bad_env
     [(''channel'', JStr ''rcs''), (''message_type'', JStr ''reply''),
      (''reply'', JObj [(''id'', JStr ''GENERATE_STORY_REQUEST''), (''title'', JStr ''X'')]),
      (''from'', JStr ''+1555'')] idle) = Inr ok_response
   \<and> outbox (snd (inbound_handler bad_env
     [(''channel'', JStr ''rcs''), (''message_type'', JStr ''reply''),
      (''reply'', JObj [(''id'', JStr ''GENERATE_STORY_REQUEST''), (''title'', JStr ''X'')]),
      (''from'', JStr ''+1555'')] idle))
     = [RCSText (JStr ''+1555'') ''StoryAgent'' ''Oops! I couldn't generate a story right now. Please try again later.'']
   \<and> generated_text good_env ''Generate a short, calming bedtime story for children (approx. 100-150 words).'' = Inr ''Once upon a time, a sleepy owl.''
   \<and> outbox (snd (inbound_handler good_env
     [(''channel'', JStr ''rcs''), (''message_type'', JStr ''reply''),
      (''reply'', JObj [(''id'', JStr ''GENERATE_STORY_REQUEST''), (''title'', JStr ''X'')]),
      (''from'', JStr ''+1555'')] idle))
     = [RCSText (JStr ''+1555'') ''StoryAgent'' ''Once upon a time, a sleepy owl.'']"
proof -
  let ?b = "[(''channel'', JStr ''rcs''), (''message_type'', JStr ''reply''),
      (''reply'', JObj [(''id'', JStr ''GENERATE_STORY_REQUEST''), (''title'', JStr ''X'')]),
      (''from'', JStr ''+1555'')]"
  have c: "classify ?b = Inr (GenerateStoryTrigger (JStr ''+1555''))"
    by (simp add: classify_def js_get_def)
  have bad: "generated_text bad_env ''Generate a short, calming bedtime story for children (approx. 100-150 words).'' = Inl (Error ''fetch failed'')"
    by (simp add: bad_env_simps)
  have good: "generated_text good_env ''Generate a short, calming bedtime story for children (approx. 100-150 words).'' = Inr ''Once upon a time, a sleepy owl.''"
    by (simp add: good_env_simps)
  have failing: "fst (inbound_handler bad_env ?b idle) = Inr ok_response
      \<and> outbox (snd (inbound_handler bad_env ?b idle))
          = [RCSText (JStr ''+1555'') ''StoryAgent'' ''Oops! I couldn't generate a story right now. Please try again later.'']"
    using generation_failure_becomes_apology [OF c, of bad_env idle "Error ''fetch failed''"] bad
    by (simp add: bad_env_simps idle_simps)
  have working: "outbox (snd (inbound_handler good_env ?b idle))
          = [RCSText (JStr ''+1555'') ''StoryAgent'' ''Once upon a time, a sleepy owl.'']"
    using generation_failure_becomes_apology [OF c, of good_env idle _ "''Once upon a time, a sleepy owl.''"] good
    by (simp add: good_env_simps idle_simps)
  show ?thesis using c bad good failing working by simp
qed

text \<open>
  Claim C5 says every parsed body is answered 200 and every send failure is caught and
  logged. Neither holds as said. A text event on \<^verbatim>\<open>rcs\<close> whose text is the number 5 passes
  the guard of line 105 (it is truthy), \<^verbatim>\<open>req.body.text.toLowerCase\<close> is undefined, the call
  throws, and \<^verbatim>\<open>catchAsync\<close> hands the error to the middleware, which answers 500. And a send
  that rejects with an error whose \<^verbatim>\<open>response.text()\<close> rejects too is caught but leaves no
  line on the console: lines 209 to 211 end in \<^verbatim>\<open>.catch(() => {})\<close>.
\<close>
theorem not_always_200_nor_always_logged:
  "fst (inbound_route good_env
          [(''channel'', JStr ''rcs''), (''message_type'', JStr ''text''),
           (''text'', JNum 5), (''from'', JStr ''+1555'')] idle) \<noteq> ok_response
   \<and> status (fst (inbound_route good_env
          [(''channel'', JStr ''rcs''), (''message_type'', JStr ''text''),
           (''text'', JNum 5), (''from'', JStr ''+1555'')] idle)) = 500
   \<and> messages_send silent_env (RCSText (JStr ''+1555'') ''StoryAgent'' ''I received your message: hello. Tap 'Generate Story' for a tale!'')
       = Rejected ResponseTextRejects
   \<and> outbox (snd (inbound_route silent_env
          [(''channel'', JStr ''rcs''), (''message_type'', JStr ''text''),
           (''text'', JStr ''hello''), (''from'', JStr ''+1555'')] idle))
       = [RCSText (JStr ''+1555'') ''StoryAgent'' ''I received your message: hello. Tap 'Generate Story' for a tale!'']
   \<and> console (snd (inbound_route silent_env
          [(''channel'', JStr ''rcs''), (''message_type'', JStr ''text''),
           (''text'', JStr ''hello''), (''from'', JStr ''+1555'')] idle)) = []"
  by (simp add: inbound_route_def catchAsync_def inbound_handler_def js_get_def
        text_is_trigger_def error_middleware_def ok_response_def sendGeneratedStory_def
        silent_env_def unreadable_transport_def idle_def toLowerCase_hello)

text \<open>
  Claim C5, as amended. Unless the event is a text event on \<^verbatim>\<open>rcs\<close> whose text is truthy and
  not a string, the call is answered 200 with \<^verbatim>\<open>{ok: true}\<close> whatever the backend and the
  transport do: the handler itself returns normally. It hands at most one message to the
  transport, and a send that fails is caught inside the send helper, which returns
  normally for every outcome of the transport. What the failure leaves on the console is
  one line when the error has no response, one line with the response text when that text
  can be read, and nothing when reading the response text rejects in turn.
\<close>
theorem acknowledged_whatever_happens_downstream:
  assumes "\<not> (js_get body ''channel'' = JStr ''rcs'' \<and> js_get body ''message_type'' = JStr ''text''
              \<and> truthy (js_get body ''text'') \<and> \<not> is_string (js_get body ''text''))"
  shows "fst (inbound_route e body w) = ok_response \<and>
         fst (inbound_handler e body w) = Inr ok_response \<and>
         fst (sendGeneratedStory e to story w) = Inr () \<and>
         (snd (inbound_route e body w) = w \<or>
          (\<exists>m. outbox (snd (inbound_route e body w)) = outbox w @ [m] \<and>
               console (snd (inbound_route e body w)) =
                 console w @
                 (case messages_send e m of
                    Resolved \<Rightarrow> []
                  | Rejected NoResponse \<Rightarrow> [[''Error sending generated story message'']]
                  | Rejected (ResponseText t) \<Rightarrow> [[''Vonage API Error Response Text for story:'', t]]
                  | Rejected ResponseTextRejects \<Rightarrow> []))) \<and>
         outbox (snd (sendGeneratedStory e to story w)) =
           outbox w @ [RCSText to (RCS_SENDER_ID e) story] \<and>
         console (snd (sendGeneratedStory e to story w)) =
           console w @
                 (case messages_send e (RCSText to (RCS_SENDER_ID e) story) of
                    Resolved \<Rightarrow> []
                  | Rejected NoResponse \<Rightarrow> [[''Error sending generated story message'']]
                  | Rejected (ResponseText t) \<Rightarrow> [[''Vonage API Error Response Text for story:'', t]]
                  | Rejected ResponseTextRejects \<Rightarrow> [])"
proof -
  obtain c where c: "classify body = Inr c" using classify_no_error [OF assms] by blast
  have status: "fst (inbound_route e body w) = ok_response \<and>
         fst (inbound_handler e body w) = Inr ok_response \<and>
         fst (sendGeneratedStory e to story w) = Inr ()"
    using c
    by (simp add: inbound_route_classify inbound_handler_classify sendGeneratedStory_eq
          split: ReplyClassification.splits)
  have route: "snd (inbound_route e body w) = w \<or>
          (\<exists>m. outbox (snd (inbound_route e body w)) = outbox w @ [m] \<and>
               console (snd (inbound_route e body w)) = console w @ story_send_log e m)"
  proof (cases c)
    case (GenerateStoryTrigger r)
    then show ?thesis using c by (simp add: inbound_route_classify trigger_world)
  next
    case (PlainEcho r t)
    then show ?thesis using c by (simp add: inbound_route_classify sendGeneratedStory_eq)
  next
    case Ignored
    then show ?thesis using c by (simp add: inbound_route_classify)
  qed
  have helper: "outbox (snd (sendGeneratedStory e to story w)) =
           outbox w @ [RCSText to (RCS_SENDER_ID e) story] \<and>
         console (snd (sendGeneratedStory e to story w)) =
           console w @ story_send_log e (RCSText to (RCS_SENDER_ID e) story)"
    by (simp add: sendGeneratedStory_eq)
  show ?thesis
    using status route helper unfolding story_send_log_def by simp
qed

theorem acknowledged_whatever_happens_downstream_witness:
  "\<not> is_string (JNum 5) \<and> is_string (JStr ''GENERATE STORY'')
   \<and> messages_send bad_env (RCSText (JStr ''+1555'') ''StoryAgent'' ''Oops! I couldn't generate a story right now. Please try again later.'') = Rejected NoResponse
   \<and> fst (inbound_route bad_env
     [(''channel'', JStr ''rcs''), (''message_type'', JStr ''text''),
      (''text'', JStr ''GENERATE STORY''), (''from'', JStr ''+1555'')] idle) = ok_response
   \<and> console (snd (inbound_route bad_env
     [(''channel'', JStr ''rcs''), (''message_type'', JStr ''text''),
      (''text'', JStr ''GENERATE STORY''), (''from'', JStr ''+1555'')] idle)) = [[''Error sending generated story message'']]
   \<and> console (snd (sendGeneratedStory bad_env (JStr ''+1555'') ''hello'' idle))
       = [[''Error sending generated story message'']]"
proof -
  let ?b = "[(''channel'', JStr ''rcs''), (''message_type'', JStr ''text''),
      (''text'', JStr ''GENERATE STORY''), (''from'', JStr ''+1555'')]"
  let ?m = "RCSText (JStr ''+1555'') ''StoryAgent'' ''Oops! I couldn't generate a story right now. Please try again later.''"
  have t: "js_get ?b ''text'' = JStr ''GENERATE STORY''"
    by (simp add: js_get_def)
  have h: "\<not> (js_get ?b ''channel'' = JStr ''rcs'' \<and> js_get ?b ''message_type'' = JStr ''text''
              \<and> truthy (js_get ?b ''text'') \<and> \<not> is_string (js_get ?b ''text''))"
    using t by simp
  have r: "messages_send bad_env m = Rejected NoResponse" for m
    by (simp add: bad_env_def rejecting_transport_def)
  have c: "classify ?b = Inr (GenerateStoryTrigger (JStr ''+1555''))"
    by (simp add: classify_def js_get_def text_is_trigger_def toLowerCase_shouted)
  have ob: "outbox (snd (inbound_route bad_env ?b idle)) = [?m]"
    using c by (simp add: inbound_route_classify trigger_world bad_env_simps idle_simps)
  note a = acknowledged_whatever_happens_downstream [OF h, of bad_env idle "JStr ''+1555''" "''hello''"]
  have ack: "fst (inbound_route bad_env ?b idle) = ok_response"
    using a by (rule conjunct1)
  have "snd (inbound_route bad_env ?b idle) \<noteq> idle"
    using ob by (auto simp add: idle_simps)
  then obtain m where m: "outbox (snd (inbound_route bad_env ?b idle)) = outbox idle @ [m]"
      and cm: "console (snd (inbound_route bad_env ?b idle)) =
                 console idle @
                 (case messages_send bad_env m of
                    Resolved \<Rightarrow> []
                  | Rejected NoResponse \<Rightarrow> [[''Error sending generated story message'']]
                  | Rejected (ResponseText t) \<Rightarrow> [[''Vonage API Error Response Text for story:'', t]]
                  | Rejected ResponseTextRejects \<Rightarrow> [])"
    using a [THEN conjunct2, THEN conjunct2, THEN conjunct2, THEN conjunct1] by blast
  have routed: "console (snd (inbound_route bad_env ?b idle)) = [[''Error sending generated story message'']]"
    using cm by (simp add: r idle_simps)
  have helped: "console (snd (sendGeneratedStory bad_env (JStr ''+1555'') ''hello'' idle))
       = [[''Error sending generated story message'']]"
    using a [THEN conjunct2, THEN conjunct2, THEN conjunct2, THEN conjunct2, THEN conjunct2]
    by (simp add: r idle_simps)
  show ?thesis using ack routed helped r [of ?m] by simp
qed

text \<open>
  Claim C6. An event whose channel is not \<^verbatim>\<open>rcs\<close> is ignored, whatever its other fields
  hold: nothing is asked of the backend, nothing is sent, and the call is answered 200.
\<close>
theorem other_channels_ignored:
  assumes "js_get body ''channel'' \<noteq> JStr ''rcs''"
  shows "classify body = Inr Ignored \<and> inbound_route e body w = (ok_response, w)"
proof -
  have "classify body = Inr Ignored" using assms by (simp add: classify_def)
  then show ?thesis by (simp add: inbound_route_classify)
qed

theorem other_channels_ignored_witness:
  "js_get
     [(''channel'', JStr ''sms''), (''message_type'', JStr ''text''),
      (''text'', JStr ''generate story''), (''from'', JStr ''+1555'')] ''channel'' \<noteq> JStr ''rcs''
   \<and> classify
     [(''channel'', JStr ''sms''), (''message_type'', JStr ''text''),
      (''text'', JStr ''generate story''), (''from'', JStr ''+1555'')] = Inr Ignored
   \<and> inbound_route good_env
     [(''channel'', JStr ''sms''), (''message_type'', JStr ''text''),
      (''text'', JStr ''generate story''), (''from'', JStr ''+1555'')] idle = (ok_response, idle)"
proof -
  let ?b = "[(''channel'', JStr ''sms''), (''message_type'', JStr ''text''),
      (''text'', JStr ''generate story''), (''from'', JStr ''+1555'')]"
  have h: "js_get ?b ''channel'' \<noteq> JStr ''rcs''"
    by (simp add: js_get_def)
  show ?thesis using other_channels_ignored [OF h, of good_env idle] h by simp
qed

text \<open>
  Claim C7 says a text event on \<^verbatim>\<open>rcs\<close> with no text field is ignored and nothing is sent.
  The handler evaluated at such an event: the missing text is falsy, line 105 is false, and
  the \<^verbatim>\<open>else\<close> branch of line 118 sends an echo in which the missing text reads
  \<^verbatim>\<open>undefined\<close>. So the event is a plain echo, not ignored, and one message goes out.
\<close>
theorem missing_text_is_echoed_as_undefined:
  "classify [(''channel'', JStr ''rcs''), (''message_type'', JStr ''text''), (''from'', JStr ''+1555'')]
     = Inr (PlainEcho (JStr ''+1555'') JUndefined)
   \<and> inbound_route good_env
        [(''channel'', JStr ''rcs''), (''message_type'', JStr ''text''), (''from'', JStr ''+1555'')] idle
     = (ok_response,
        \<lparr>prompts = [],
         outbox = [RCSText (JStr ''+1555'') ''StoryAgent''
                     ''I received your message: undefined. Tap 'Generate Story' for a tale!''],
         console = []\<rparr>)"
  by (simp add: classify_def inbound_route_def catchAsync_def inbound_handler_def js_get_def
        text_is_trigger_def sendGeneratedStory_def good_env_def accepting_transport_def idle_def)

text \<open>
  Claim C8. The prompt sent by \<^verbatim>\<open>GET /send-story-request\<close> is a rich card addressed to the
  given number from the configured sender, in vertical orientation, with the title
  \<^verbatim>\<open>Bedtime Story Generator\<close>, a fixed description and a fixed image URL, and exactly one
  suggestion, labelled \<^verbatim>\<open>Generate Story\<close> with payload \<^verbatim>\<open>GENERATE_STORY_REQUEST\<close>. Nothing in
  it depends on anything but the number and the sender id. It is the one message the helper
  hands to the transport, and the route answers 200.
\<close>
theorem story_prompt_is_a_fixed_card:
  "msg_to (story_prompt_message e number) = JStr number \<and>
   msg_from (story_prompt_message e number) = RCS_SENDER_ID e \<and>
   js_path (msg_custom (story_prompt_message e number))
     [''contentMessage'', ''richCard'', ''standaloneCard'', ''cardOrientation''] = Inr (JStr ''VERTICAL'') \<and>
   card_content (story_prompt_message e number) ''title'' = Inr (JStr ''Bedtime Story Generator'') \<and>
   card_content (story_prompt_message e number) ''description'' =
     Inr (JStr (''Tap '' @ [CHR 0x22] @ ''Generate Story'' @ [CHR 0x22] @ '' for a magical tale!'')) \<and>
   js_path (msg_custom (story_prompt_message e number))
     [''contentMessage'', ''richCard'', ''standaloneCard'', ''cardContent'', ''media'', ''contentInfo'', ''fileUrl'']
     = Inr (JStr ''https://cdn-icons-png.flaticon.com/512/2917/2917637.png'') \<and>
   map suggestion_label (card_suggestions (story_prompt_message e number)) = [Inr (JStr ''Generate Story'')] \<and>
   map suggestion_payload (card_suggestions (story_prompt_message e number))
     = [Inr (JStr ''GENERATE_STORY_REQUEST'')] \<and>
   (\<forall>e'. RCS_SENDER_ID e' = RCS_SENDER_ID e \<longrightarrow>
      story_prompt_message e' number = story_prompt_message e number) \<and>
   outbox (snd (sendInitialStoryPrompt e number w)) = outbox w @ [story_prompt_message e number] \<and>
   outbox (snd (send_story_request_route e w)) = outbox w @ [story_prompt_message e (PHONE_NUMBER e)] \<and>
   status (fst (send_story_request_route e w)) = 200"
proof -
  let ?m = "story_prompt_message e number"
  have c1: "msg_to ?m = JStr number"
    by (simp add: story_prompt_message_def)
  have c2: "msg_from ?m = RCS_SENDER_ID e"
    by (simp add: story_prompt_message_def)
  have c3: "js_path (msg_custom ?m)
     [''contentMessage'', ''richCard'', ''standaloneCard'', ''cardOrientation''] = Inr (JStr ''VERTICAL'')"
    by (simp add: story_prompt_message_def js_get_def)
  have c4: "card_content ?m ''title'' = Inr (JStr ''Bedtime Story Generator'')"
    by (simp add: story_prompt_message_def card_content_def js_get_def)
  have c5: "card_content ?m ''description'' =
     Inr (JStr (''Tap '' @ [CHR 0x22] @ ''Generate Story'' @ [CHR 0x22] @ '' for a magical tale!''))"
    by (simp add: story_prompt_message_def card_content_def js_get_def)
  have c6: "js_path (msg_custom ?m)
     [''contentMessage'', ''richCard'', ''standaloneCard'', ''cardContent'', ''media'', ''contentInfo'', ''fileUrl'']
     = Inr (JStr ''https://cdn-icons-png.flaticon.com/512/2917/2917637.png'')"
    by (simp add: story_prompt_message_def js_get_def)
  have c7: "map suggestion_label (card_suggestions ?m) = [Inr (JStr ''Generate Story'')]"
    by (simp add: card_suggestions_prompt suggestion_label_def js_get_def)
  have c8: "map suggestion_payload (card_suggestions ?m) = [Inr (JStr ''GENERATE_STORY_REQUEST'')]"
    by (simp add: card_suggestions_prompt suggestion_payload_def js_get_def)
  have c9: "\<forall>e'. RCS_SENDER_ID e' = RCS_SENDER_ID e \<longrightarrow> story_prompt_message e' number = ?m"
    by (simp add: story_prompt_message_def)
  have c10: "outbox (snd (sendInitialStoryPrompt e number w)) = outbox w @ [?m]"
    by (simp add: sendInitialStoryPrompt_outbox)
  have c11: "outbox (snd (send_story_request_route e w)) = outbox w @ [story_prompt_message e (PHONE_NUMBER e)]"
    using sendInitialStoryPrompt_outbox [of e "PHONE_NUMBER e" w]
    by (cases "sendInitialStoryPrompt e (PHONE_NUMBER e) w")
       (simp add: send_story_request_route_def catchAsync_def send_story_request_handler_def)
  have c12: "status (fst (send_story_request_route e w)) = 200"
    using sendInitialStoryPrompt_outbox [of e "PHONE_NUMBER e" w]
    by (cases "sendInitialStoryPrompt e (PHONE_NUMBER e) w")
       (simp add: send_story_request_route_def catchAsync_def send_story_request_handler_def)
  show ?thesis
    by (intro conjI c1 c2 c3 c4 c5 c6 c7 c8 c9 c10 c11 c12)
qed

theorem story_prompt_is_a_fixed_card_witness:
  "RCS_SENDER_ID bad_env = RCS_SENDER_ID good_env \<and>
   story_prompt_message bad_env ''+1555'' = story_prompt_message good_env ''+1555'' \<and>
   card_content (story_prompt_message good_env ''+1555'') ''title'' = Inr (JStr ''Bedtime Story Generator'') \<and>
   map suggestion_payload (card_suggestions (story_prompt_message good_env ''+1555''))
     = [Inr (JStr ''GENERATE_STORY_REQUEST'')] \<and>
   outbox (snd (send_story_request_route good_env idle)) = [story_prompt_message good_env ''+1555'']"
proof -
  have h: "RCS_SENDER_ID bad_env = RCS_SENDER_ID good_env"
    by (simp add: good_env_def bad_env_def)
  have n: "PHONE_NUMBER good_env = ''+1555''" by (simp add: good_env_def)
  have o: "outbox idle = []" by (simp add: idle_def)
  note card = story_prompt_is_a_fixed_card [of good_env "''+1555''" idle]
  from card have dep: "\<forall>e'. RCS_SENDER_ID e' = RCS_SENDER_ID good_env \<longrightarrow>
      story_prompt_message e' ''+1555'' = story_prompt_message good_env ''+1555''"
    by (elim conjE)
  from card have t: "card_content (story_prompt_message good_env ''+1555'') ''title''
      = Inr (JStr ''Bedtime Story Generator'')"
    by (elim conjE)
  from card have p: "map suggestion_payload (card_suggestions (story_prompt_message good_env ''+1555''))
      = [Inr (JStr ''GENERATE_STORY_REQUEST'')]"
    by (elim conjE)
  from card have r: "outbox (snd (send_story_request_route good_env idle))
      = outbox idle @ [story_prompt_message good_env (PHONE_NUMBER good_env)]"
    by (elim conjE)
  have same: "story_prompt_message bad_env ''+1555'' = story_prompt_message good_env ''+1555''"
    using dep [rule_format, OF h] .
  have sent: "outbox (snd (send_story_request_route good_env idle)) = [story_prompt_message good_env ''+1555'']"
    using r n o by simp
  show ?thesis by (intro conjI h same t p sent)
qed

text \<open>
  Claim C9. A reply event on \<^verbatim>\<open>rcs\<close> whose reply id is the payload of a suggestion of the
  built card, or whose reply title is that suggestion's label, is a generate-story trigger
  and is answered with one text message: what the card offers is what the handler recognises.
\<close>
theorem card_suggestion_round_trip:
  assumes "js_get body ''channel'' = JStr ''rcs''"
      and "js_get body ''message_type'' = JStr ''reply''"
      and "truthy (js_get body ''reply'')"
      and "s \<in> set (card_suggestions (story_prompt_message e number))"
      and "js_member (js_get body ''reply'') ''id'' = suggestion_payload s
           \<or> js_member (js_get body ''reply'') ''title'' = suggestion_label s"
  shows "classify body = Inr (GenerateStoryTrigger (js_get body ''from'')) \<and>
         outbox (snd (inbound_route e' body w)) =
           outbox w @ [RCSText (js_get body ''from'') (RCS_SENDER_ID e')
             (case generated_text e' ''Generate a short, calming bedtime story for children (approx. 100-150 words).'' of Inl err \<Rightarrow> ''Oops! I couldn't generate a story right now. Please try again later.'' | Inr story \<Rightarrow> story)]"
proof -
  have p: "suggestion_payload s = Inr (JStr ''GENERATE_STORY_REQUEST'')"
    using assms(4) by (simp add: card_suggestions_prompt suggestion_payload_def js_get_def)
  have l: "suggestion_label s = Inr (JStr ''Generate Story'')"
    using assms(4) by (simp add: card_suggestions_prompt suggestion_label_def js_get_def)
  have "classify body = Inr (GenerateStoryTrigger (js_get body ''from''))"
    using classify_reply [OF assms(1,2,3)] assms(5) p l by auto
  then show ?thesis by (simp add: inbound_route_classify trigger_world)
qed

theorem card_suggestion_round_trip_witness:
  "JObj [(''reply'', JObj [(''text'', JStr ''Generate Story''), (''postbackData'', JStr ''GENERATE_STORY_REQUEST'')])]
     \<in> set (card_suggestions (story_prompt_message good_env ''+1555''))
   \<and> suggestion_payload
     (JObj [(''reply'', JObj [(''text'', JStr ''Generate Story''), (''postbackData'', JStr ''GENERATE_STORY_REQUEST'')])])
     = Inr (JStr ''GENERATE_STORY_REQUEST'')
   \<and> classify
     [(''channel'', JStr ''rcs''), (''message_type'', JStr ''reply''),
      (''reply'', JObj [(''id'', JStr ''GENERATE_STORY_REQUEST''), (''title'', JStr ''X'')]),
      (''from'', JStr ''+1555'')]
     = Inr (GenerateStoryTrigger (JStr ''+1555''))
   \<and> outbox (snd (inbound_route good_env
     [(''channel'', JStr ''rcs''), (''message_type'', JStr ''reply''),
      (''reply'', JObj [(''id'', JStr ''GENERATE_STORY_REQUEST''), (''title'', JStr ''X'')]),
      (''from'', JStr ''+1555'')] idle))
     = [RCSText (JStr ''+1555'') ''StoryAgent'' ''Once upon a time, a sleepy owl.'']"
proof -
  let ?b = "[(''channel'', JStr ''rcs''), (''message_type'', JStr ''reply''),
      (''reply'', JObj [(''id'', JStr ''GENERATE_STORY_REQUEST''), (''title'', JStr ''X'')]),
      (''from'', JStr ''+1555'')]"
  let ?s = "JObj [(''reply'', JObj [(''text'', JStr ''Generate Story''), (''postbackData'', JStr ''GENERATE_STORY_REQUEST'')])]"
  have b: "js_get ?b ''channel'' = JStr ''rcs''" "js_get ?b ''message_type'' = JStr ''reply''"
      "truthy (js_get ?b ''reply'')"
    by (simp_all add: js_get_def)
  have s: "?s \<in> set (card_suggestions (story_prompt_message good_env ''+1555''))"
    by (simp add: card_suggestions_prompt)
  have p: "suggestion_payload ?s = Inr (JStr ''GENERATE_STORY_REQUEST'')"
    by (simp add: suggestion_payload_def js_get_def)
  have m: "js_member (js_get ?b ''reply'') ''id'' = suggestion_payload ?s
           \<or> js_member (js_get ?b ''reply'') ''title'' = suggestion_label ?s"
    by (simp add: p js_get_def)
  have f: "js_get ?b ''from'' = JStr ''+1555''"
    by (simp add: js_get_def)
  show ?thesis
    using card_suggestion_round_trip [OF b s m, of good_env idle] s p f
    by (simp add: good_env_simps idle_simps)
qed

text \<open>
  Claim C10. The two trigger paths behave alike: the \<^verbatim>\<open>try\<close> blocks of the structured-reply
  branch and of the free-text branch are the same function of recipient and world, and two
  events with the same classification leave the same response and the same world. For a
  trigger, whichever form it came in, the recipient is the event's \<^verbatim>\<open>from\<close>, the backend gets
  the one fixed prompt, and one text message goes to the recipient, carrying the story or
  the fixed apology.
\<close>
theorem trigger_paths_coincide:
  assumes "classify b1 = classify b2"
  shows "inbound_route e b1 w = inbound_route e b2 w \<and>
         reply_trigger_try e r w = text_trigger_try e r w \<and>
         (classify b1 = Inr (GenerateStoryTrigger r) \<longrightarrow>
            r = js_get b1 ''from'' \<and> r = js_get b2 ''from'' \<and>
            fst (inbound_route e b1 w) = ok_response \<and>
            prompts (snd (inbound_route e b1 w)) = prompts w @ [''Generate a short, calming bedtime story for children (approx. 100-150 words).''] \<and>
            outbox (snd (inbound_route e b1 w)) =
              outbox w @ [RCSText r (RCS_SENDER_ID e)
                (case generated_text e ''Generate a short, calming bedtime story for children (approx. 100-150 words).'' of Inl err \<Rightarrow> ''Oops! I couldn't generate a story right now. Please try again later.'' | Inr story \<Rightarrow> story)])"
proof -
  have blocks: "reply_trigger_try e r w = text_trigger_try e r w"
    by (simp add: reply_trigger_try_eq text_trigger_try_eq)
  have routes: "inbound_route e b1 w = inbound_route e b2 w"
    using assms by (simp add: inbound_route_classify)
  have answer: "classify b1 = Inr (GenerateStoryTrigger r) \<longrightarrow>
            r = js_get b1 ''from'' \<and> r = js_get b2 ''from'' \<and>
            fst (inbound_route e b1 w) = ok_response \<and>
            prompts (snd (inbound_route e b1 w)) = prompts w @ [''Generate a short, calming bedtime story for children (approx. 100-150 words).''] \<and>
            outbox (snd (inbound_route e b1 w)) =
              outbox w @ [RCSText r (RCS_SENDER_ID e)
                (case generated_text e ''Generate a short, calming bedtime story for children (approx. 100-150 words).'' of Inl err \<Rightarrow> ''Oops! I couldn't generate a story right now. Please try again later.'' | Inr story \<Rightarrow> story)]"
    using assms classify_trigger_recipient [of b1 r] classify_trigger_recipient [of b2 r]
    by (simp add: inbound_route_classify trigger_world)
  show ?thesis by (intro conjI blocks routes answer)
qed

theorem trigger_paths_coincide_witness:
  "classify
     [(''channel'', JStr ''rcs''), (''message_type'', JStr ''reply''),
      (''reply'', JObj [(''id'', JStr ''GENERATE_STORY_REQUEST''), (''title'', JStr ''X'')]),
      (''from'', JStr ''+1555'')]
   = classify
     [(''channel'', JStr ''rcs''), (''message_type'', JStr ''text''),
      (''text'', JStr ''GENERATE STORY''), (''from'', JStr ''+1555'')]
   \<and> inbound_route bad_env
     [(''channel'', JStr ''rcs''), (''message_type'', JStr ''reply''),
      (''reply'', JObj [(''id'', JStr ''GENERATE_STORY_REQUEST''), (''title'', JStr ''X'')]),
      (''from'', JStr ''+1555'')] idle
   = inbound_route bad_env
     [(''channel'', JStr ''rcs''), (''message_type'', JStr ''text''),
      (''text'', JStr ''GENERATE STORY''), (''from'', JStr ''+1555'')] idle
   \<and> outbox (snd (inbound_route bad_env
     [(''channel'', JStr ''rcs''), (''message_type'', JStr ''reply''),
      (''reply'', JObj [(''id'', JStr ''GENERATE_STORY_REQUEST''), (''title'', JStr ''X'')]),
      (''from'', JStr ''+1555'')] idle))
     = [RCSText (JStr ''+1555'') ''StoryAgent'' ''Oops! I couldn't generate a story right now. Please try again later.'']"
proof -
  let ?b1 = "[(''channel'', JStr ''rcs''), (''message_type'', JStr ''reply''),
      (''reply'', JObj [(''id'', JStr ''GENERATE_STORY_REQUEST''), (''title'', JStr ''X'')]),
      (''from'', JStr ''+1555'')]"
  let ?b2 = "[(''channel'', JStr ''rcs''), (''message_type'', JStr ''text''),
      (''text'', JStr ''GENERATE STORY''), (''from'', JStr ''+1555'')]"
  have c1: "classify ?b1 = Inr (GenerateStoryTrigger (JStr ''+1555''))"
    by (simp add: classify_def js_get_def)
  have c2: "classify ?b2 = Inr (GenerateStoryTrigger (JStr ''+1555''))"
    by (simp add: classify_def js_get_def text_is_trigger_def toLowerCase_shouted)
  have h: "classify ?b1 = classify ?b2"
    using c1 c2 by simp
  note t = trigger_paths_coincide [OF h, of bad_env idle "JStr ''+1555''"]
  have r: "inbound_route bad_env ?b1 idle = inbound_route bad_env ?b2 idle"
    using t by (rule conjunct1)
  have o: "outbox (snd (inbound_route bad_env ?b1 idle))
      = [RCSText (JStr ''+1555'') ''StoryAgent'' ''Oops! I couldn't generate a story right now. Please try again later.'']"
    using t [THEN conjunct2, THEN conjunct2, THEN mp, OF c1, THEN conjunct2, THEN conjunct2,
             THEN conjunct2, THEN conjunct2]
    by (simp add: bad_env_simps idle_simps)
  show ?thesis by (intro conjI h r o)
qed

end
